theory Spec2Isabelle
  imports Complex_Main
begin

section \<open>Numeric cells and Python errors\<close>

text \<open>
  A cell of a pandas column of dtype float64, without rounding: a finite value (an exact
  rational), one of the two infinities, or NaN, which is also pandas' marker of a missing
  value. Signed zeros are not distinguished.
\<close>

datatype fl = Fin rat | PInf | NInf | NaN

text \<open>The exceptions that the modelled functions can end with.\<close>

datatype py_error = ValueError | IndexError | ZeroDivisionError | UnboundLocalError

text \<open>
  ValueError is the only one that the modelled functions raise themselves, by a \<open>raise\<close>
  statement that checks an argument; the other three come from the interpreter when an
  operation fails.
\<close>

definition raised_by_validation :: "py_error \<Rightarrow> bool" where
  "raised_by_validation e = (e = ValueError)"

fun fneg :: "fl \<Rightarrow> fl" where
  "fneg (Fin a) = Fin (- a)"
| "fneg PInf = NInf"
| "fneg NInf = PInf"
| "fneg NaN = NaN"

fun fadd :: "fl \<Rightarrow> fl \<Rightarrow> fl" where
  "fadd NaN _ = NaN"
| "fadd _ NaN = NaN"
| "fadd (Fin a) (Fin b) = Fin (a + b)"
| "fadd PInf NInf = NaN"
| "fadd NInf PInf = NaN"
| "fadd PInf _ = PInf"
| "fadd NInf _ = NInf"
| "fadd (Fin a) PInf = PInf"
| "fadd (Fin a) NInf = NInf"

definition fsub :: "fl \<Rightarrow> fl \<Rightarrow> fl" where
  "fsub a b = fadd a (fneg b)"

text \<open>The sign of a non-NaN cell, as \<open>-1\<close>, \<open>0\<close> or \<open>1\<close>.\<close>

fun fsgn :: "fl \<Rightarrow> rat" where
  "fsgn (Fin a) = sgn a"
| "fsgn PInf = 1"
| "fsgn NInf = - 1"
| "fsgn NaN = 0"

fun fmul :: "fl \<Rightarrow> fl \<Rightarrow> fl" where
  "fmul NaN _ = NaN"
| "fmul _ NaN = NaN"
| "fmul (Fin a) (Fin b) = Fin (a * b)"
| "fmul a b = (if fsgn a * fsgn b = 0 then NaN else if 0 < fsgn a * fsgn b then PInf else NInf)"

text \<open>
  Division as numpy does it on float64 arrays: a finite non-zero value over zero is an
  infinity, zero over zero is NaN, and nothing is raised.
\<close>

fun fdiv :: "fl \<Rightarrow> fl \<Rightarrow> fl" where
  "fdiv NaN _ = NaN"
| "fdiv _ NaN = NaN"
| "fdiv (Fin a) (Fin b) =
     (if b \<noteq> 0 then Fin (a / b)
      else if a = 0 then NaN else if 0 < a then PInf else NInf)"
| "fdiv (Fin a) _ = Fin 0"
| "fdiv a (Fin b) = (if 0 \<le> fsgn a * sgn b then (if b < 0 then fneg a else a) else fneg a)"
| "fdiv _ _ = NaN"

text \<open>Comparisons: every comparison with NaN is false.\<close>

fun fgt :: "fl \<Rightarrow> fl \<Rightarrow> bool" where
  "fgt NaN _ = False"
| "fgt _ NaN = False"
| "fgt (Fin a) (Fin b) = (b < a)"
| "fgt PInf PInf = False"
| "fgt PInf _ = True"
| "fgt NInf _ = False"
| "fgt (Fin a) NInf = True"
| "fgt (Fin a) PInf = False"

fun fge :: "fl \<Rightarrow> fl \<Rightarrow> bool" where
  "fge NaN _ = False"
| "fge _ NaN = False"
| "fge (Fin a) (Fin b) = (b \<le> a)"
| "fge PInf _ = True"
| "fge NInf NInf = True"
| "fge NInf _ = False"
| "fge (Fin a) NInf = True"
| "fge (Fin a) PInf = False"

section \<open>Signal rule engine (signal_generation.py)\<close>

text \<open>
  Column operations of pandas on whole columns: element-wise arithmetic, comparison of a
  column with a scalar, and the element-wise \<open>&\<close> of two boolean columns.
\<close>

definition col_sub :: "fl list \<Rightarrow> fl list \<Rightarrow> fl list" where
  "col_sub xs ys = map2 fsub xs ys"

definition col_gt :: "fl list \<Rightarrow> fl \<Rightarrow> bool list" where
  "col_gt xs c = map (\<lambda>x. fgt x c) xs"

definition col_ge :: "fl list \<Rightarrow> fl \<Rightarrow> bool list" where
  "col_ge xs c = map (\<lambda>x. fge x c) xs"

definition col_and :: "bool list \<Rightarrow> bool list \<Rightarrow> bool list" where
  "col_and xs ys = map2 (\<and>) xs ys"

text \<open>
  \<open>apply_rule_with_score_thresholds\<close>. The data frame is given by its rows, each row
  holding the cells of the buy score column and of the sell score column; \<open>df[column]\<close>
  is the projection. The two thresholds are the values of
  \<open>model.get("buy_signal_threshold")\<close> and \<open>model.get("sell_signal_threshold")\<close>.
  The result is the pair of the columns \<open>buy_signal_column\<close> and \<open>sell_signal_column\<close>.
\<close>

definition apply_rule_with_score_thresholds ::
  "(fl \<times> fl) list \<Rightarrow> fl \<Rightarrow> fl \<Rightarrow> bool list \<times> bool list" where
  "apply_rule_with_score_thresholds df buy_signal_threshold sell_signal_threshold =
     (let buy_score_column = map fst df;
          sell_score_column = map snd df;
          buy_signal_column =
            col_and (col_gt (col_sub buy_score_column sell_score_column) (Fin 0))
                    (col_ge buy_score_column buy_signal_threshold);
          sell_signal_column =
            col_and (col_gt (col_sub sell_score_column buy_score_column) (Fin 0))
                    (col_ge sell_score_column sell_signal_threshold)
      in (buy_signal_column, sell_signal_column))"

text \<open>
  \<open>apply_rule_with_score_thresholds_one_row\<close>: the same rule on the two scalars of one
  row, with Python's short-circuit \<open>and\<close>.
\<close>

definition apply_rule_with_score_thresholds_one_row ::
  "fl \<times> fl \<Rightarrow> fl \<Rightarrow> fl \<Rightarrow> bool \<times> bool" where
  "apply_rule_with_score_thresholds_one_row row buy_signal_threshold sell_signal_threshold =
     (let buy_score = fst row;
          sell_score = snd row;
          buy_signal =
            (if fgt (fsub buy_score sell_score) (Fin 0)
             then fge buy_score buy_signal_threshold else False);
          sell_signal =
            (if fgt (fsub sell_score buy_score) (Fin 0)
             then fge sell_score sell_signal_threshold else False)
      in (buy_signal, sell_signal))"

section \<open>Score combination (signal_generation.py)\<close>

definition col_add :: "fl list \<Rightarrow> fl list \<Rightarrow> fl list" where
  "col_add xs ys = map2 fadd xs ys"

definition col_div :: "fl list \<Rightarrow> fl list \<Rightarrow> fl list" where
  "col_div xs ys = map2 fdiv xs ys"

definition col_neg :: "fl list \<Rightarrow> fl list" where
  "col_neg xs = map fneg xs"

text \<open>
  \<open>combine_scores_relative\<close>, on the rows of the buy and sell score columns; the result
  is the pair of the columns written to \<open>buy_column_out\<close> and \<open>sell_column_out\<close>.
\<close>

definition combine_scores_relative :: "(fl \<times> fl) list \<Rightarrow> fl list \<times> fl list" where
  "combine_scores_relative df =
     (let buy_column = map fst df;
          sell_column = map snd df;
          buy_plus_sell = col_add buy_column sell_column;
          buy_sell_score =
            map (\<lambda>x. fsub (fmul x (Fin 2)) (Fin 1)) (col_div buy_column buy_plus_sell)
      in (buy_sell_score, col_neg buy_sell_score))"

text \<open>\<open>combine_scores_difference\<close>, in the same representation.\<close>

definition combine_scores_difference :: "(fl \<times> fl) list \<Rightarrow> fl list \<times> fl list" where
  "combine_scores_difference df =
     (let buy_column = map fst df;
          sell_column = map snd df;
          buy_minus_sell = col_sub buy_column sell_column
      in (buy_minus_sell, col_neg buy_minus_sell))"

text \<open>
  \<open>combine_scores\<close> dispatches on the string \<open>model.get("combine")\<close> (absent: \<open>None\<close>) and
  overwrites the two input columns; with any other value the columns stay as they are.
\<close>

definition combine_scores :: "(fl \<times> fl) list \<Rightarrow> string option \<Rightarrow> fl list \<times> fl list" where
  "combine_scores df combine =
     (if combine = Some ''relative'' then combine_scores_relative df
      else if combine = Some ''difference'' then combine_scores_difference df
      else (map fst df, map snd df))"

text \<open>A finite, non-negative, non-missing score.\<close>

fun nonneg_score :: "fl \<Rightarrow> bool" where
  "nonneg_score (Fin a) = (0 \<le> a)"
| "nonneg_score _ = False"

fun is_fin :: "fl \<Rightarrow> bool" where
  "is_fin (Fin a) = True"
| "is_fin _ = False"

section \<open>Backtest simulator (signal_generation.py)\<close>

text \<open>
  A recorded transaction is the tuple \<open>(index, is_buy_mode, price, profit, profit_percent)\<close>;
  the index is the data frame's index value of the row.
\<close>

type_synonym 'i trade = "'i \<times> bool \<times> fl \<times> fl \<times> fl"

text \<open>The local variables of \<open>simulated_trade_performance\<close> that the loop updates.\<close>

record 'i sim_state =
  is_buy_mode :: bool
  long_profit :: fl
  long_profit_percent :: fl
  long_transactions :: nat
  long_profitable :: nat
  longs :: "'i trade list"
  short_profit :: fl
  short_profit_percent :: fl
  short_transactions :: nat
  short_profitable :: nat
  shorts :: "'i trade list"

definition sim_init :: "'i sim_state" where
  "sim_init = \<lparr> is_buy_mode = True,
      long_profit = Fin 0, long_profit_percent = Fin 0, long_transactions = 0,
      long_profitable = 0, longs = [],
      short_profit = Fin 0, short_profit_percent = Fin 0, short_transactions = 0,
      short_profitable = 0, shorts = [] \<rparr>"

text \<open>\<open>xs[-1][2]\<close>: the price of the last recorded transaction of a non-empty list.\<close>

definition last_price :: "'i trade list \<Rightarrow> fl" where
  "last_price xs = fst (snd (snd (last xs)))"

text \<open>
  One iteration of the loop over \<open>df.itertuples\<close>, on the tuple
  \<open>(index, sell_signal, buy_signal, price)\<close>. The test \<open>not price or pd.isnull(price)\<close>
  holds for the price \<open>0\<close> (falsy) and for a missing price. The division by
  \<open>previous_price\<close> is guarded by \<open>previous_price > 0\<close>.
\<close>

definition sim_step :: "'i \<times> bool \<times> bool \<times> fl \<Rightarrow> 'i sim_state \<Rightarrow> 'i sim_state" where
  "sim_step row s =
     (case row of (index, sell_signal, buy_signal, price) \<Rightarrow>
      if price = Fin 0 \<or> price = NaN then s
      else if is_buy_mode s then
        (if buy_signal then
           (let previous_price = (if length (shorts s) > 0 then last_price (shorts s) else Fin 0);
                profit = (if fgt previous_price (Fin 0) then fsub previous_price price else Fin 0);
                profit_percent =
                  (if fgt previous_price (Fin 0)
                   then fdiv (fmul (Fin 100) profit) previous_price else Fin 0)
            in s\<lparr> short_profit := fadd (short_profit s) profit,
                  short_profit_percent := fadd (short_profit_percent s) profit_percent,
                  short_transactions := short_transactions s + 1,
                  short_profitable :=
                    (if fgt profit (Fin 0) then short_profitable s + 1 else short_profitable s),
                  longs := longs s @ [(index, is_buy_mode s, price, profit, profit_percent)],
                  is_buy_mode := False \<rparr>)
         else s)
      else
        (if sell_signal then
           (let previous_price = (if length (longs s) > 0 then last_price (longs s) else Fin 0);
                profit = (if fgt previous_price (Fin 0) then fsub price previous_price else Fin 0);
                profit_percent =
                  (if fgt previous_price (Fin 0)
                   then fdiv (fmul (Fin 100) profit) previous_price else Fin 0)
            in s\<lparr> long_profit := fadd (long_profit s) profit,
                  long_profit_percent := fadd (long_profit_percent s) profit_percent,
                  long_transactions := long_transactions s + 1,
                  long_profitable :=
                    (if fgt profit (Fin 0) then long_profitable s + 1 else long_profitable s),
                  shorts := shorts s @ [(index, is_buy_mode s, price, profit, profit_percent)],
                  is_buy_mode := True \<rparr>)
         else s))"

text \<open>The three dictionaries returned: the overall performance, the long and the short one.\<close>

record 'i side_performance =
  side_profit :: fl
  side_profit_percent :: fl
  side_transaction_no :: nat
  side_profitable :: rat
  side_transactions :: "'i trade list"

record performance =
  profit :: fl
  profit_percent :: fl
  transaction_no :: nat
  profitable :: rat
  profit_per_transaction :: fl
  profitable_percent :: rat

definition sim_report ::
  "'i sim_state \<Rightarrow> performance \<times> 'i side_performance \<times> 'i side_performance" where
  "sim_report s =
     (let long_performance = \<lparr> side_profit = long_profit s,
            side_profit_percent = long_profit_percent s,
            side_transaction_no = long_transactions s,
            side_profitable =
              (if long_transactions s \<noteq> 0
               then of_nat (long_profitable s) / of_nat (long_transactions s) else 0),
            side_transactions = longs s \<rparr>;
          short_performance = \<lparr> side_profit = short_profit s,
            side_profit_percent = short_profit_percent s,
            side_transaction_no = short_transactions s,
            side_profitable =
              (if short_transactions s \<noteq> 0
               then of_nat (short_profitable s) / of_nat (short_transactions s) else 0),
            side_transactions = shorts s \<rparr>;
          profit = fadd (long_profit s) (short_profit s);
          profit_percent = fadd (long_profit_percent s) (short_profit_percent s);
          transaction_no = long_transactions s + short_transactions s;
          profitable =
            (if transaction_no \<noteq> 0
             then of_nat (long_profitable s + short_profitable s) / of_nat transaction_no
             else 0)
      in (\<lparr> profit = profit, profit_percent = profit_percent,
            transaction_no = transaction_no, profitable = profitable,
            profit_per_transaction =
              (if transaction_no \<noteq> 0 then fdiv profit (Fin (of_nat transaction_no)) else Fin 0),
            profitable_percent =
              (if transaction_no \<noteq> 0 then 100 * profitable / of_nat transaction_no else 0) \<rparr>,
          long_performance, short_performance))"

text \<open>
  \<open>simulated_trade_performance\<close> on the rows \<open>(index, sell_signal, buy_signal, price)\<close> of
  the three selected columns, in the order of the data frame.
\<close>

definition simulated_trade_performance ::
  "('i \<times> bool \<times> bool \<times> fl) list \<Rightarrow> performance \<times> 'i side_performance \<times> 'i side_performance"
  where
  "simulated_trade_performance df = sim_report (fold sim_step df sim_init)"

text \<open>A row whose price is present and not zero.\<close>

definition priced :: "'i \<times> bool \<times> bool \<times> fl \<Rightarrow> bool" where
  "priced row = (case row of (index, sell_signal, buy_signal, price) \<Rightarrow>
     price \<noteq> Fin 0 \<and> price \<noteq> NaN)"

section \<open>Score aggregation (signal_generation.py)\<close>

text \<open>
  The configuration \<open>model\<close> is a dictionary from parameter names to numbers, as an
  association list with distinct keys; \<open>model.get(key)\<close> is \<open>map_of model key\<close>, and
  \<open>not model\<close> holds for the empty dictionary (and for \<open>None\<close>, which is not distinguished
  from it here).
\<close>

datatype pyval = PInt int | PFloat rat

text \<open>Python's truth value of the result of \<open>model.get\<close>: \<open>None\<close> and zero are false.\<close>

fun py_truthy :: "pyval option \<Rightarrow> bool" where
  "py_truthy None = False"
| "py_truthy (Some (PInt n)) = (n \<noteq> 0)"
| "py_truthy (Some (PFloat x)) = (x \<noteq> 0)"

fun py_num :: "pyval \<Rightarrow> fl" where
  "py_num (PInt n) = Fin (of_int n)"
| "py_num (PFloat x) = Fin x"

text \<open>The cells of a list that are not missing, and the sum of a list of cells.\<close>

definition observations :: "fl list \<Rightarrow> fl list" where
  "observations xs = filter (\<lambda>c. c \<noteq> NaN) xs"

definition fsum :: "fl list \<Rightarrow> fl" where
  "fsum xs = fold (\<lambda>c acc. fadd acc c) xs (Fin 0)"

text \<open>
  \<open>mean(skipna=True)\<close> of pandas over the cells of one row or of one window: the mean of
  the cells that are not missing, and NaN when there is none.
\<close>

definition nan_mean :: "fl list \<Rightarrow> fl" where
  "nan_mean xs =
     (let obs = observations xs
      in if obs = [] then NaN else fdiv (fsum obs) (Fin (of_nat (length obs))))"

text \<open>
  \<open>Series.rolling(window, min_periods).mean()\<close> of pandas, as documented: the window at
  position \<open>i\<close> holds the cells at the positions \<open>i - window + 1, \<dots>, i\<close> that exist; the
  result there is the mean of the window's non-missing cells when there are at least
  \<open>min_periods\<close> of them (and at least one), and NaN otherwise. A negative window, a
  negative \<open>min_periods\<close> and a \<open>min_periods\<close> above the window raise ValueError.
\<close>

definition window_at :: "int \<Rightarrow> fl list \<Rightarrow> nat \<Rightarrow> fl list" where
  "window_at window xs i = drop (Suc i - nat window) (take (Suc i) xs)"

definition rolling_mean :: "int \<Rightarrow> int \<Rightarrow> fl list \<Rightarrow> py_error + fl list" where
  "rolling_mean window min_periods xs =
     (if window < 0 \<or> min_periods < 0 \<or> window < min_periods then Inl ValueError
      else Inr (map (\<lambda>i. let w = window_at window xs i
                          in if min_periods \<le> int (length (observations w)) then nan_mean w
                             else NaN)
                [0..<length xs]))"

text \<open>
  \<open>Series.ewm(span, min_periods, adjust=False).mean()\<close> of pandas, as documented: with
  \<open>alpha = 2 / (span + 1)\<close> the result starts at the first observation and continues with
  \<open>y\<^sub>t = (1 - alpha) * y\<^sub>t\<^sub>-\<^sub>1 + alpha * x\<^sub>t\<close>; over missing cells the weight of the old
  value decays by absolute position; a position with fewer than \<open>min_periods\<close> (at least
  one) observations so far is NaN. A span below one raises ValueError. The state of the
  scan is the weighted mean so far, the weight of the old value and the number of
  observations.
\<close>

fun ewm_scan :: "rat \<Rightarrow> nat \<Rightarrow> fl \<Rightarrow> rat \<Rightarrow> nat \<Rightarrow> fl list \<Rightarrow> fl list" where
  "ewm_scan alpha minp weighted old_wt nobs [] = []"
| "ewm_scan alpha minp weighted old_wt nobs (cur # xs) =
     (let is_observation = (cur \<noteq> NaN);
          nobs' = (if is_observation then nobs + 1 else nobs);
          old_wt' = (if weighted \<noteq> NaN then old_wt * (1 - alpha) else old_wt);
          weighted' =
            (if weighted \<noteq> NaN then
               (if is_observation
                then fdiv (fadd (fmul (Fin old_wt') weighted) (fmul (Fin alpha) cur))
                          (Fin (old_wt' + alpha))
                else weighted)
             else cur);
          old_wt'' = (if weighted \<noteq> NaN \<and> is_observation then 1 else old_wt')
      in (if minp \<le> nobs' then weighted' else NaN)
         # ewm_scan alpha minp weighted' old_wt'' nobs' xs)"

definition ewm_mean :: "rat \<Rightarrow> int \<Rightarrow> fl list \<Rightarrow> py_error + fl list" where
  "ewm_mean span_arg min_periods xs =
     (if span_arg < 1 then Inl ValueError
      else Inr (ewm_scan (2 / (span_arg + 1)) (nat (max min_periods 1)) NaN 1 0 xs))"

text \<open>
  \<open>aggregate_scores\<close>. The argument \<open>df\<close> holds, for every row of the data frame, the cells
  of the selected score columns. The boolean column of the binarization is written with
  \<open>1\<close> for True and \<open>0\<close> for False, the values that the smoothing averages. On an integer
  \<open>//\<close> is \<open>div\<close>, on a float it is the floor of the quotient. The result is the column
  stored in \<open>score_column_out\<close> and returned.
\<close>

definition aggregate_scores :: "fl list list \<Rightarrow> (string \<times> pyval) list \<Rightarrow> py_error + fl list" where
  "aggregate_scores df model =
     (if model = [] then Inl ValueError
      else
        let point_threshold = map_of model ''point_threshold'';
            window = map_of model ''window'';
            score_column = map nan_mean df;
            score_column =
              (if py_truthy point_threshold
               then map (\<lambda>c. if fge c (py_num (the point_threshold)) then Fin 1 else Fin 0)
                      score_column
               else score_column)
        in case window of
             Some (PInt w) \<Rightarrow> rolling_mean w (w div 2) score_column
           | Some (PFloat w) \<Rightarrow> ewm_mean w \<lfloor>w / 2\<rfloor> score_column
           | None \<Rightarrow> Inr score_column)"

text \<open>A cell that is a finite number or missing, but not an infinity.\<close>

fun fin_or_nan :: "fl \<Rightarrow> bool" where
  "fin_or_nan PInf = False"
| "fin_or_nan NInf = False"
| "fin_or_nan _ = True"

section \<open>Interval precision (signal_generation.py)\<close>

text \<open>
  \<open>Series.diff()\<close> of pandas on a boolean column: the first cell is missing, every other
  cell tells whether the value differs from the one before (the exclusive or).
\<close>

definition diff_bool :: "bool list \<Rightarrow> bool option list" where
  "diff_bool xs =
     (case xs of [] \<Rightarrow> [] | x # rest \<Rightarrow> None # map2 (\<lambda>cur prev. Some (cur \<noteq> prev)) rest xs)"

text \<open>\<open>astype(int)\<close>: a missing cell cannot be converted.\<close>

fun astype_int :: "bool option list \<Rightarrow> py_error + int list" where
  "astype_int [] = Inr []"
| "astype_int (None # xs) = Inl ValueError"
| "astype_int (Some b # xs) =
     (case astype_int xs of Inl e \<Rightarrow> Inl e | Inr ys \<Rightarrow> Inr ((if b then 1 else 0) # ys))"

fun cumsum_from :: "int \<Rightarrow> int list \<Rightarrow> int list" where
  "cumsum_from acc [] = []"
| "cumsum_from acc (x # xs) = (acc + x) # cumsum_from (acc + x) xs"

definition cumsum :: "int list \<Rightarrow> int list" where
  "cumsum xs = cumsum_from 0 xs"

text \<open>
  \<open>groupby\<close>: the groups are taken in the increasing order of their distinct keys, and
  the group of a key holds the cells of the rows with that key, in the order of the rows.
\<close>

definition group_keys :: "int list \<Rightarrow> int list" where
  "group_keys keys = sort (remdups keys)"

definition group_cells :: "int \<Rightarrow> int list \<Rightarrow> 'a list \<Rightarrow> 'a list" where
  "group_cells k keys cells = map snd (filter (\<lambda>kc. fst kc = k) (zip keys cells))"

text \<open>\<open>max()\<close> over a group of booleans, where False is below True.\<close>

definition col_max :: "bool list \<Rightarrow> bool" where
  "col_max bs = fold max bs False"

text \<open>
  \<open>find_interval_precision\<close> on the rows \<open>(label, score)\<close> of the label column and the
  score column. The result holds the rows \<open>(interval_no, label, score)\<close> of
  \<open>interval_df\<close>. On an empty frame \<open>out.iloc[0] = False\<close> raises IndexError.
\<close>

definition find_interval_precision ::
  "(bool \<times> fl) list \<Rightarrow> fl \<Rightarrow> py_error + (int \<times> bool \<times> bool) list" where
  "find_interval_precision df threshold =
     (let label_column = map fst df;
          score_column = map snd df;
          out = diff_bool label_column
      in if out = [] then Inl IndexError
         else
           case astype_int (out[0 := Some False]) of
             Inl e \<Rightarrow> Inl e
           | Inr out \<Rightarrow>
               let interval_no = cumsum out;
                   greater_than_threshold = col_ge score_column threshold;
                   keys = group_keys interval_no;
                   interval_label = map (\<lambda>k. col_max (group_cells k interval_no label_column)) keys;
                   interval_score =
                     map (\<lambda>k. col_max (group_cells k interval_no greater_than_threshold)) keys
               in Inr (zip keys (zip interval_label interval_score)))"

text \<open>
  The decomposition of a sequence of rows into its maximal runs of identical labels: a run
  is a row followed by the longest stretch of rows with the same label.
\<close>

function runs :: "(bool \<times> 'a) list \<Rightarrow> (bool \<times> 'a) list list" where
  "runs [] = []"
| "runs (x # xs) =
     (x # takeWhile (\<lambda>y. fst y = fst x) xs) # runs (dropWhile (\<lambda>y. fst y = fst x) xs)"
  by pat_completeness auto
termination
  by (relation "measure length") (simp_all add: less_Suc_eq_le length_dropWhile_le)

text \<open>
  The intervals as the specification describes them: one row per maximal run, numbered
  \<open>0, 1, 2, \<dots>\<close> in order, with the label of the run and the score that tells whether
  some point of the run has a score at or above the threshold.
\<close>

definition intervals_of_runs :: "(bool \<times> fl) list \<Rightarrow> fl \<Rightarrow> (int \<times> bool \<times> bool) list" where
  "intervals_of_runs df threshold =
     map (\<lambda>(i, run). (int i, fst (hd run), list_ex (\<lambda>row. fge (snd row) threshold) run))
       (zip [0..<length (runs df)] (runs df))"

text \<open>
  Auxiliary notions for the proofs about the intervals: the interval numbers as a scan
  that keeps the current number and the previous label, the key column of a list of
  numbered blocks, and the numbering of a list of runs from a first number.
\<close>

fun run_ids :: "int \<Rightarrow> bool \<Rightarrow> bool list \<Rightarrow> int list" where
  "run_ids c prev [] = []"
| "run_ids c prev (l # ls) =
     (c + (if l \<noteq> prev then 1 else 0)) # run_ids (c + (if l \<noteq> prev then 1 else 0)) l ls"

definition key_col :: "(int \<times> 'a list) list \<Rightarrow> int list" where
  "key_col kbs = concat (map (\<lambda>kb. replicate (length (snd kb)) (fst kb)) kbs)"

fun number_runs :: "int \<Rightarrow> 'a list \<Rightarrow> (int \<times> 'a) list" where
  "number_runs c [] = []"
| "number_runs c (r # rs) = (c, r) # number_runs (c + 1) rs"

section \<open>Depth discretizer (utils.py)\<close>

text \<open>
  A point of a depth curve is the pair \<open>[price, volume]\<close> of a price and the volume
  accumulated up to it. Prices, volumes and the bin size are finite floats, taken as exact
  rationals.
\<close>

type_synonym point = "rat \<times> rat"

text \<open>
  The direction chosen from \<open>side\<close>. With any other string the function only prints a
  message and the name \<open>price_increase\<close> stays unbound (\<open>None\<close>).
\<close>

definition price_increase_of :: "string \<Rightarrow> bool option" where
  "price_increase_of side =
     (if take 3 side = ''ask'' \<or> take 4 side = ''sell'' then Some True
      else if side = ''bid'' \<or> side = ''buy'' then Some False
      else None)"

text \<open>The list comprehension that collects the ids of the points within a bin.\<close>

definition bin_point_ids :: "bool \<Rightarrow> point list \<Rightarrow> rat \<Rightarrow> rat \<Rightarrow> nat list" where
  "bin_point_ids price_increase depth bin_start bin_end =
     filter (\<lambda>i. if price_increase
                 then bin_start \<le> fst (depth ! i) \<and> fst (depth ! i) < bin_end
                 else bin_end < fst (depth ! i) \<and> fst (depth ! i) \<le> bin_start)
       [0..<length depth]"

text \<open>
  One iteration of the loop over the points of a non-empty bin, for the point
  \<open>depth[point_id]\<close>, on the variables \<open>(prev_price, prev_volume, bin_volume)\<close>.
\<close>

definition point_step :: "rat \<Rightarrow> point \<Rightarrow> rat \<times> rat \<times> rat \<Rightarrow> rat \<times> rat \<times> rat" where
  "point_step bin_size point st =
     (case st of (prev_price, prev_volume, bin_volume) \<Rightarrow>
        let price = fst point;
            price_delta = \<bar>price - prev_price\<bar>;
            price_coeff = price_delta / bin_size
        in (fst point, snd point, bin_volume + prev_volume * price_coeff))"

text \<open>
  The body of the loop over the bins, for the bin \<open>b\<close>. The ids \<open>first_point_id\<close> and
  \<open>last_point_id\<close> are \<open>None\<close> for an empty bin. The variable \<open>prev_point\<close> lives across
  the iterations: it is unbound before the first non-empty bin (\<open>None\<close>), and then holds
  \<open>None\<close> (\<open>Some None\<close>) or a point. Reading it while it is unbound raises
  UnboundLocalError. The result is the volume of the bin and the new \<open>prev_point\<close>.
\<close>

definition discretize_bin ::
  "bool \<Rightarrow> point list \<Rightarrow> rat \<Rightarrow> rat \<Rightarrow> nat \<Rightarrow> point option option \<Rightarrow>
   py_error + rat \<times> point option option" where
  "discretize_bin price_increase depth bin_size start b prev_point =
     (let bin_start = (if price_increase then start + of_nat b * bin_size
                       else start - of_nat b * bin_size);
          bin_end = (if price_increase then bin_start + bin_size else bin_start - bin_size);
          ids = bin_point_ids price_increase depth bin_start bin_end;
          first_point_id = (if ids \<noteq> [] then Some (Min (set ids)) else None);
          last_point_id = (if ids \<noteq> [] then Some (Max (set ids)) else None);
          prev_point =
            (case first_point_id of
               Some f \<Rightarrow> Some (if f \<ge> 1 then Some (depth ! (f - 1)) else None)
             | None \<Rightarrow> prev_point)
      in case prev_point of
           None \<Rightarrow> Inl UnboundLocalError
         | Some bound \<Rightarrow>
             let prev_price = bin_start;
                 prev_volume = (case bound of Some p \<Rightarrow> snd p | None \<Rightarrow> 0);
                 bin_volume = 0
             in case (first_point_id, last_point_id) of
                  (Some f, Some l) \<Rightarrow>
                    (case fold (\<lambda>point_id. point_step bin_size (depth ! point_id)) [f..<l + 1]
                            (prev_price, prev_volume, bin_volume) of
                       (prev_price, prev_volume, bin_volume) \<Rightarrow>
                         Inr (bin_volume + prev_volume * (\<bar>bin_end - prev_price\<bar> / bin_size),
                              Some (Some (depth ! l))))
                | _ \<Rightarrow>
                    Inr (bin_volume + prev_volume * (\<bar>bin_end - prev_price\<bar> / bin_size),
                         prev_point))"

text \<open>The loop over \<open>range(bin_count)\<close>, with \<open>prev_point\<close> and \<open>bin_volumes\<close> as state.\<close>

fun discretize_loop ::
  "bool \<Rightarrow> point list \<Rightarrow> rat \<Rightarrow> rat \<Rightarrow> nat list \<Rightarrow> point option option \<Rightarrow> rat list \<Rightarrow>
   py_error + rat list" where
  "discretize_loop price_increase depth bin_size start [] prev_point bin_volumes =
     Inr bin_volumes"
| "discretize_loop price_increase depth bin_size start (b # bs) prev_point bin_volumes =
     (case discretize_bin price_increase depth bin_size start b prev_point of
        Inl e \<Rightarrow> Inl e
      | Inr (bin_volume, prev_point') \<Rightarrow>
          discretize_loop price_increase depth bin_size start bs prev_point'
            (bin_volumes @ [bin_volume]))"

text \<open>
  \<open>discretize\<close>. The argument \<open>start\<close> is \<open>None\<close> or a price. Indexing the empty list
  (\<open>depth[0]\<close>, \<open>depth[-1]\<close>) raises IndexError, the floor division by a zero \<open>bin_size\<close>
  raises ZeroDivisionError, and reading the unbound \<open>price_increase\<close> raises
  UnboundLocalError, in this order.
\<close>

definition discretize :: "string \<Rightarrow> point list \<Rightarrow> rat \<Rightarrow> rat option \<Rightarrow> py_error + rat list" where
  "discretize side depth bin_size start_arg =
     (let price_increase = price_increase_of side
      in if depth = [] then Inl IndexError
         else
           let start = (case start_arg of None \<Rightarrow> fst (hd depth) | Some s \<Rightarrow> s)
           in if bin_size = 0 then Inl ZeroDivisionError
              else
                let bin_count = \<lfloor>\<bar>fst (last depth) - start\<bar> / bin_size\<rfloor> + 1
                in case price_increase of
                     None \<Rightarrow> Inl UnboundLocalError
                   | Some inc \<Rightarrow>
                       discretize_loop inc depth bin_size start [0..<nat bin_count] None [])"






section \<open>Properties of the signal rule engine\<close>

lemma fsub_gt_exclusive: "\<not> (fgt (fsub a b) (Fin 0) \<and> fgt (fsub b a) (Fin 0))"
  by (cases a; cases b) (auto simp: fsub_def)

lemma length_apply_rule:
  "length (fst (apply_rule_with_score_thresholds df bt st)) = length df"
  "length (snd (apply_rule_with_score_thresholds df bt st)) = length df"
  by (simp_all add: apply_rule_with_score_thresholds_def Let_def col_and_def col_gt_def
      col_ge_def col_sub_def)

lemma apply_rule_nth:
  assumes "i < length df"
  shows "fst (apply_rule_with_score_thresholds df bt st) ! i =
           (fgt (fsub (fst (df ! i)) (snd (df ! i))) (Fin 0) \<and> fge (fst (df ! i)) bt)"
    and "snd (apply_rule_with_score_thresholds df bt st) ! i =
           (fgt (fsub (snd (df ! i)) (fst (df ! i))) (Fin 0) \<and> fge (snd (df ! i)) st)"
  using assms
  by (simp_all add: apply_rule_with_score_thresholds_def Let_def col_and_def col_gt_def
      col_ge_def col_sub_def split_beta)

text \<open>
  C3. Mutual exclusivity: on every table of buy and sell scores (finite, infinite or
  missing) and for every pair of thresholds, the batch rule returns two signal columns
  with one entry per row, and no row has both its buy signal and its sell signal true.
\<close>

theorem decide_batch_mutually_exclusive:
  "length (fst (apply_rule_with_score_thresholds df bt st)) = length df \<and>
   length (snd (apply_rule_with_score_thresholds df bt st)) = length df \<and>
   (\<forall>i < length df.
      \<not> (fst (apply_rule_with_score_thresholds df bt st) ! i \<and>
         snd (apply_rule_with_score_thresholds df bt st) ! i))"
  using fsub_gt_exclusive by (auto simp: length_apply_rule apply_rule_nth)

theorem decide_batch_mutually_exclusive_witness:
  "apply_rule_with_score_thresholds [(Fin 3, Fin 1), (Fin 1, Fin 2), (NaN, Fin 1)] (Fin 2) (Fin 2)
     = ([True, False, False], [False, True, False]) \<and>
   \<not> (fst (apply_rule_with_score_thresholds [(Fin 3, Fin 1), (Fin 1, Fin 2), (NaN, Fin 1)]
           (Fin 2) (Fin 2)) ! 1 \<and>
      snd (apply_rule_with_score_thresholds [(Fin 3, Fin 1), (Fin 1, Fin 2), (NaN, Fin 1)]
           (Fin 2) (Fin 2)) ! 1)"
  using decide_batch_mutually_exclusive
    [of "[(Fin 3, Fin 1), (Fin 1, Fin 2), (NaN, Fin 1)]" "Fin 2" "Fin 2"]
  by (simp add: apply_rule_with_score_thresholds_def Let_def col_and_def col_gt_def
      col_ge_def col_sub_def fsub_def)

text \<open>
  C4. Row/batch equivalence: applying the one-row rule to each row of a table gives, row
  by row, the same pair of booleans as the batch rule on the whole table.
\<close>

theorem decide_row_batch_equivalent:
  "map (\<lambda>row. apply_rule_with_score_thresholds_one_row row bt st) df =
   zip (fst (apply_rule_with_score_thresholds df bt st))
       (snd (apply_rule_with_score_thresholds df bt st))"
  by (induction df)
     (simp_all add: apply_rule_with_score_thresholds_def
      apply_rule_with_score_thresholds_one_row_def Let_def col_and_def col_gt_def
      col_ge_def col_sub_def split_beta)

theorem decide_row_batch_equivalent_witness:
  "map (\<lambda>row. apply_rule_with_score_thresholds_one_row row (Fin 2) (Fin 2))
     [(Fin 3, Fin 1), (Fin 1, Fin 2), (NaN, Fin 1), (PInf, PInf)] =
   [(True, False), (False, True), (False, False), (False, False)] \<and>
   apply_rule_with_score_thresholds
     [(Fin 3, Fin 1), (Fin 1, Fin 2), (NaN, Fin 1), (PInf, PInf)] (Fin 2) (Fin 2) =
   ([True, False, False, False], [False, True, False, False])"
  using decide_row_batch_equivalent
    [of "Fin 2" "Fin 2" "[(Fin 3, Fin 1), (Fin 1, Fin 2), (NaN, Fin 1), (PInf, PInf)]"]
  by (simp add: apply_rule_with_score_thresholds_def
      apply_rule_with_score_thresholds_one_row_def Let_def col_and_def col_gt_def
      col_ge_def col_sub_def fsub_def)

section \<open>Properties of the score combination\<close>

lemma relative_cell:
  assumes "0 \<le> x" "0 \<le> y"
  shows "fsub (fmul (fdiv (Fin x) (fadd (Fin x) (Fin y))) (Fin 2)) (Fin 1) =
           (if x + y = 0 then NaN else Fin (x / (x + y) * 2 - 1))"
  using assms by (auto simp: fsub_def)

lemma combine_relative_nth:
  assumes "i < length df"
  shows "fst (combine_scores_relative df) ! i =
           fsub (fmul (fdiv (fst (df ! i)) (fadd (fst (df ! i)) (snd (df ! i)))) (Fin 2)) (Fin 1)"
    and "snd (combine_scores_relative df) ! i = fneg (fst (combine_scores_relative df) ! i)"
  using assms
  by (simp_all add: combine_scores_relative_def Let_def col_add_def col_div_def col_neg_def
      split_beta)

lemma combine_difference_nth:
  assumes "i < length df"
  shows "fst (combine_scores_difference df) ! i = fsub (fst (df ! i)) (snd (df ! i))"
    and "snd (combine_scores_difference df) ! i = fneg (fst (combine_scores_difference df) ! i)"
  using assms
  by (simp_all add: combine_scores_difference_def Let_def col_sub_def col_neg_def split_beta)

lemma length_combine:
  "length (fst (combine_scores_relative df)) = length df"
  "length (snd (combine_scores_relative df)) = length df"
  "length (fst (combine_scores_difference df)) = length df"
  "length (snd (combine_scores_difference df)) = length df"
  by (simp_all add: combine_scores_relative_def combine_scores_difference_def Let_def
      col_add_def col_div_def col_neg_def col_sub_def)

lemma nonneg_scoreE:
  assumes "nonneg_score c"
  obtains x where "c = Fin x" "0 \<le> x"
  using assms by (cases c) auto

text \<open>
  C8. Sign antisymmetry: on columns of finite, non-negative, non-missing scores, both
  combinations return two columns as long as the input with, at every row, the buy output
  equal to the negated sell output. The difference outputs are always present. The
  relative outputs are missing exactly at the rows where buy + sell is zero, and at every
  other row they are the numbers \<open>r\<close> and \<open>-r\<close> with \<open>r = buy / (buy + sell) * 2 - 1\<close>.
\<close>

theorem combine_sign_antisymmetry:
  assumes "\<forall>row \<in> set df. nonneg_score (fst row) \<and> nonneg_score (snd row)"
  shows "length (fst (combine_scores_relative df)) = length df \<and>
         length (snd (combine_scores_relative df)) = length df \<and>
         length (fst (combine_scores_difference df)) = length df \<and>
         length (snd (combine_scores_difference df)) = length df \<and>
         (\<forall>i < length df.
            fst (combine_scores_relative df) ! i = fneg (snd (combine_scores_relative df) ! i) \<and>
            (fst (combine_scores_relative df) ! i = NaN \<longleftrightarrow>
               fadd (fst (df ! i)) (snd (df ! i)) = Fin 0) \<and>
            (snd (combine_scores_relative df) ! i = NaN \<longleftrightarrow>
               fadd (fst (df ! i)) (snd (df ! i)) = Fin 0) \<and>
            (fadd (fst (df ! i)) (snd (df ! i)) \<noteq> Fin 0 \<longrightarrow>
               (\<exists>r. fst (combine_scores_relative df) ! i = Fin r \<and>
                    snd (combine_scores_relative df) ! i = Fin (- r))) \<and>
            fst (combine_scores_difference df) ! i =
              fneg (snd (combine_scores_difference df) ! i) \<and>
            (\<exists>d. fst (combine_scores_difference df) ! i = Fin d \<and>
                 snd (combine_scores_difference df) ! i = Fin (- d)))"
proof -
  have row: "fst (combine_scores_relative df) ! i = fneg (snd (combine_scores_relative df) ! i) \<and>
            (fst (combine_scores_relative df) ! i = NaN \<longleftrightarrow>
               fadd (fst (df ! i)) (snd (df ! i)) = Fin 0) \<and>
            (snd (combine_scores_relative df) ! i = NaN \<longleftrightarrow>
               fadd (fst (df ! i)) (snd (df ! i)) = Fin 0) \<and>
            (fadd (fst (df ! i)) (snd (df ! i)) \<noteq> Fin 0 \<longrightarrow>
               (\<exists>r. fst (combine_scores_relative df) ! i = Fin r \<and>
                    snd (combine_scores_relative df) ! i = Fin (- r))) \<and>
            fst (combine_scores_difference df) ! i =
              fneg (snd (combine_scores_difference df) ! i) \<and>
            (\<exists>d. fst (combine_scores_difference df) ! i = Fin d \<and>
                 snd (combine_scores_difference df) ! i = Fin (- d))"
    if i: "i < length df" for i
  proof -
    from i assms have "nonneg_score (fst (df ! i))" "nonneg_score (snd (df ! i))"
      by (auto dest: nth_mem)
    then obtain x y where xy: "fst (df ! i) = Fin x" "0 \<le> x" "snd (df ! i) = Fin y" "0 \<le> y"
      by (auto elim!: nonneg_scoreE)
    have rel: "fst (combine_scores_relative df) ! i =
                 (if x + y = 0 then NaN else Fin (x / (x + y) * 2 - 1))"
      using combine_relative_nth(1)[OF i] relative_cell[OF xy(2) xy(4)] xy by simp
    have rel': "snd (combine_scores_relative df) ! i =
                 (if x + y = 0 then NaN else Fin (- (x / (x + y) * 2 - 1)))"
      using combine_relative_nth(2)[OF i] rel by simp
    have dif: "fst (combine_scores_difference df) ! i = Fin (x - y)"
      using combine_difference_nth(1)[OF i] xy by (simp add: fsub_def)
    have dif': "snd (combine_scores_difference df) ! i = Fin (- (x - y))"
      using combine_difference_nth(2)[OF i] dif by simp
    show ?thesis
      unfolding rel rel' dif dif' xy by simp
  qed
  show ?thesis
    using row length_combine[of df] by blast
qed

theorem combine_sign_antisymmetry_witness:
  "nonneg_score (Fin 3) \<and> nonneg_score (Fin 1) \<and> nonneg_score (Fin 0) \<and> nonneg_score (Fin 2) \<and>
   combine_scores_relative [(Fin 3, Fin 1), (Fin 0, Fin 0), (Fin 0, Fin 2)] =
     ([Fin (1 / 2), NaN, Fin (- 1)], [Fin (- (1 / 2)), NaN, Fin 1]) \<and>
   combine_scores_difference [(Fin 3, Fin 1), (Fin 0, Fin 0), (Fin 0, Fin 2)] =
     ([Fin 2, Fin 0, Fin (- 2)], [Fin (- 2), Fin 0, Fin 2]) \<and>
   fst (combine_scores_relative [(Fin 3, Fin 1), (Fin 0, Fin 0), (Fin 0, Fin 2)]) ! 0 =
     fneg (snd (combine_scores_relative [(Fin 3, Fin 1), (Fin 0, Fin 0), (Fin 0, Fin 2)]) ! 0)"
proof -
  have h: "\<forall>row \<in> set [(Fin 3, Fin 1), (Fin 0, Fin 0), (Fin 0, Fin 2)].
      nonneg_score (fst row) \<and> nonneg_score (snd row)"
    by simp
  show ?thesis
    using h combine_sign_antisymmetry[OF h]
    by (simp add: combine_scores_relative_def combine_scores_difference_def Let_def
        col_add_def col_div_def col_neg_def col_sub_def fsub_def)
qed

section \<open>Properties of the backtest simulator\<close>

lemma sim_step_unpriced: "\<not> priced row \<Longrightarrow> sim_step row s = s"
  by (auto simp: priced_def sim_step_def split: prod.splits)

lemma fold_sim_step_filter:
  "fold sim_step (filter priced df) s = fold sim_step df s"
  by (induction df arbitrary: s) (simp_all add: sim_step_unpriced)

text \<open>
  C10. A row whose price is exactly zero is skipped like a row whose price is missing:
  whatever its signals and the current state, the state (mode, both transaction lists and
  every metric) is unchanged. Only a row with a present, non-zero price can change the
  state, and the whole simulation returns the same three reports as on the table with all
  rows of zero or missing price removed.
\<close>

theorem zero_price_row_skipped:
  "sim_step (index, sell_signal, buy_signal, Fin 0) s = s \<and>
   sim_step (index, sell_signal, buy_signal, NaN) s = s \<and>
   (sim_step row s \<noteq> s \<longrightarrow> priced row) \<and>
   simulated_trade_performance df = simulated_trade_performance (filter priced df)"
proof (intro conjI)
  show "sim_step (index, sell_signal, buy_signal, Fin 0) s = s"
    by (simp add: sim_step_unpriced priced_def)
  show "sim_step (index, sell_signal, buy_signal, NaN) s = s"
    by (simp add: sim_step_unpriced priced_def)
  show "sim_step row s \<noteq> s \<longrightarrow> priced row"
    using sim_step_unpriced[of row s] by blast
  show "simulated_trade_performance df = simulated_trade_performance (filter priced df)"
    by (simp add: simulated_trade_performance_def fold_sim_step_filter)
qed

theorem zero_price_row_skipped_witness:
  "sim_step (2::nat, False, True, Fin 0) sim_init = sim_init \<and>
   sim_step (1::nat, False, True, Fin 9) sim_init \<noteq> sim_init \<and>
   priced (1::nat, False, True, Fin 9) \<and>
   simulated_trade_performance [(0::nat, False, True, Fin 0), (1, False, True, Fin 9),
       (2, True, False, Fin 0), (3, True, False, Fin 11)] =
   simulated_trade_performance [(1::nat, False, True, Fin 9), (3, True, False, Fin 11)]"
proof -
  have ne: "sim_step (1::nat, False, True, Fin 9) sim_init \<noteq> sim_init"
    by (simp add: sim_step_def sim_init_def Let_def)
  show ?thesis
    using ne zero_price_row_skipped[of "2::nat" False True sim_init
        "(1::nat, False, True, Fin 9)"
        "[(0::nat, False, True, Fin 0), (1, False, True, Fin 9),
          (2, True, False, Fin 0), (3, True, False, Fin 11)]"]
    by (simp add: priced_def)
qed

section \<open>Properties of the score aggregation\<close>

text \<open>
  C6. Binarization with a given point threshold: the claim holds for every non-zero
  threshold (lemma \<open>aggregate_scores_binarizes\<close> below), but a threshold given as \<open>0.0\<close>
  fails the test \<open>if point_threshold:\<close> and the column is not binarized: with the rows
  \<open>[0.3]\<close> and \<open>[0.7, 0.1]\<close> the result is the means \<open>0.3\<close> and \<open>0.4\<close>, not \<open>1.0\<close> and \<open>1.0\<close>.
\<close>

theorem zero_point_threshold_not_binarized:
  "aggregate_scores [[Fin (3 / 10)], [Fin (7 / 10), Fin (1 / 10)]] [(''point_threshold'', PFloat 0)] =
     Inr [Fin (3 / 10), Fin (2 / 5)]"
  by (simp add: aggregate_scores_def nan_mean_def observations_def fsum_def)

lemma aggregate_scores_binarizes:
  assumes "map_of model ''point_threshold'' = Some t" "py_truthy (Some t)"
    and "map_of model ''window'' = None"
  shows "aggregate_scores df model =
           Inr (map (\<lambda>row. if fge (nan_mean row) (py_num t) then Fin 1 else Fin 0) df)"
  using assms by (auto simp: aggregate_scores_def Let_def)

lemma fsum_fin_aux:
  "\<forall>c \<in> set xs. is_fin c \<Longrightarrow> is_fin (fold (\<lambda>c acc. fadd acc c) xs (Fin a))"
proof (induction xs arbitrary: a)
  case Nil
  then show ?case by simp
next
  case (Cons x xs)
  then obtain b where "x = Fin b" by (cases x) auto
  with Cons show ?case by simp
qed

lemma nan_mean_fin_or_nan:
  assumes "\<forall>c \<in> set xs. fin_or_nan c"
  shows "nan_mean xs \<noteq> NaN \<longleftrightarrow> observations xs \<noteq> []"
    and "fin_or_nan (nan_mean xs)"
proof -
  have all: "\<forall>c \<in> set (observations xs). is_fin c"
  proof
    fix c assume "c \<in> set (observations xs)"
    then have "c \<in> set xs" "c \<noteq> NaN" by (auto simp: observations_def)
    with assms show "is_fin c" by (cases c) auto
  qed
  then have "is_fin (fsum (observations xs))"
    unfolding fsum_def by (rule fsum_fin_aux)
  then obtain s where s: "fsum (observations xs) = Fin s"
    by (cases "fsum (observations xs)") auto
  show "nan_mean xs \<noteq> NaN \<longleftrightarrow> observations xs \<noteq> []"
    by (auto simp: nan_mean_def Let_def s)
  show "fin_or_nan (nan_mean xs)"
    by (auto simp: nan_mean_def Let_def s)
qed

lemma length_filter_window:
  assumes "b \<le> length xs"
  shows "length (filter P (drop a (take b xs))) = card {j. a \<le> j \<and> j < b \<and> P (xs ! j)}"
proof -
  have "{i. i < length (drop a (take b xs)) \<and> P (drop a (take b xs) ! i)} =
        {i. i < b - a \<and> P (xs ! (a + i))}"
    using assms by auto
  then have "length (filter P (drop a (take b xs))) =
          card {i. i < b - a \<and> P (xs ! (a + i))}"
    by (simp only: length_filter_conv_card)
  also have "{j. a \<le> j \<and> j < b \<and> P (xs ! j)} = (\<lambda>i. a + i) ` {i. i < b - a \<and> P (xs ! (a + i))}"
  proof (intro set_eqI iffI)
    fix j assume "j \<in> {j. a \<le> j \<and> j < b \<and> P (xs ! j)}"
    then have "j - a \<in> {i. i < b - a \<and> P (xs ! (a + i))}" "j = a + (j - a)" by auto
    then show "j \<in> (\<lambda>i. a + i) ` {i. i < b - a \<and> P (xs ! (a + i))}" by blast
  qed auto
  then have "card {j. a \<le> j \<and> j < b \<and> P (xs ! j)} = card {i. i < b - a \<and> P (xs ! (a + i))}"
    by (simp add: card_image)
  finally show ?thesis by simp
qed


lemma rolling_mean_ok:
  assumes "0 \<le> w"
  shows "rolling_mean w (w div 2) xs =
           Inr (map (\<lambda>i. let win = window_at w xs i
                          in if w div 2 \<le> int (length (observations win)) then nan_mean win
                             else NaN)
                [0..<length xs])"
proof -
  from assms have "0 \<le> w div 2" "w div 2 \<le> w" by simp_all
  with assms show ?thesis by (simp add: rolling_mean_def)
qed

lemma window_observations_card:
  assumes "i < length xs" "0 \<le> w"
  shows "length (observations (window_at w xs i)) =
           card {j. j \<le> i \<and> int i < int j + w \<and> xs ! j \<noteq> NaN}"
proof -
  have "length (observations (window_at w xs i)) =
          card {j. Suc i - nat w \<le> j \<and> j < Suc i \<and> xs ! j \<noteq> NaN}"
    unfolding observations_def window_at_def
    using assms(1) by (intro length_filter_window) simp
  also have "{j. Suc i - nat w \<le> j \<and> j < Suc i \<and> xs ! j \<noteq> NaN} =
             {j. j \<le> i \<and> int i < int j + w \<and> xs ! j \<noteq> NaN}"
    using assms(2) by auto
  finally show ?thesis .
qed

text \<open>
  C7. Minimum support of the moving average, as the code has it: with an integer window
  \<open>w \<ge> 0\<close> and no binarization, on cells that are finite or missing, the smoothed
  column has one cell per row, and the cell at position \<open>i\<close> is non-missing if and only if
  at least \<open>max 1 (w div 2)\<close> of the rows at the positions \<open>i - w + 1, \<dots>, i\<close> that exist
  have a non-missing mean score (\<open>min_periods\<close> is \<open>window // 2\<close>, the floor and not the
  ceiling of \<open>w / 2\<close>).
\<close>

theorem moving_average_min_support:
  assumes window: "map_of model ''window'' = Some (PInt w)" "0 \<le> w"
    and no_threshold: "\<not> py_truthy (map_of model ''point_threshold'')"
    and cells: "\<forall>row \<in> set df. \<forall>c \<in> set row. fin_or_nan c"
  shows "\<exists>out. aggregate_scores df model = Inr out \<and> length out = length df \<and>
           (\<forall>i < length df.
              out ! i \<noteq> NaN \<longleftrightarrow>
              max 1 (w div 2) \<le>
                int (card {j. j \<le> i \<and> int i < int j + w \<and> nan_mean (df ! j) \<noteq> NaN}))"
proof -
  define col where "col = map nan_mean df"
  define out where "out = map (\<lambda>i. let win = window_at w col i
                          in if w div 2 \<le> int (length (observations win)) then nan_mean win
                             else NaN) [0..<length col]"
  from window(1) have "model \<noteq> []" by auto
  then have res: "aggregate_scores df model = Inr out"
    using window no_threshold
    by (simp add: aggregate_scores_def Let_def rolling_mean_ok out_def col_def)
  have len: "length out = length df"
    by (simp add: out_def col_def)
  have col_cells: "\<forall>c \<in> set col. fin_or_nan c"
    using cells by (auto simp: col_def intro: nan_mean_fin_or_nan(2))
  have pos: "out ! i \<noteq> NaN \<longleftrightarrow>
              max 1 (w div 2) \<le>
                int (card {j. j \<le> i \<and> int i < int j + w \<and> nan_mean (df ! j) \<noteq> NaN})"
    if i: "i < length df" for i
  proof -
    let ?win = "window_at w col i"
    have "set ?win \<subseteq> set col"
      unfolding window_at_def by (meson set_drop_subset set_take_subset subset_trans)
    with col_cells have "\<forall>c \<in> set ?win. fin_or_nan c" by blast
    then have mean: "nan_mean ?win \<noteq> NaN \<longleftrightarrow> observations ?win \<noteq> []"
      by (rule nan_mean_fin_or_nan(1))
    have "out ! i = (if w div 2 \<le> int (length (observations ?win)) then nan_mean ?win else NaN)"
      using i by (simp add: out_def col_def Let_def)
    then have "out ! i \<noteq> NaN \<longleftrightarrow>
                 w div 2 \<le> int (length (observations ?win)) \<and> observations ?win \<noteq> []"
      using mean by simp
    also have "\<dots> \<longleftrightarrow> max 1 (w div 2) \<le> int (length (observations ?win))"
      by (cases "observations ?win") auto
    also have "length (observations ?win) =
                 card {j. j \<le> i \<and> int i < int j + w \<and> col ! j \<noteq> NaN}"
      using i window(2) by (intro window_observations_card) (simp_all add: col_def)
    also have "{j. j \<le> i \<and> int i < int j + w \<and> col ! j \<noteq> NaN} =
               {j. j \<le> i \<and> int i < int j + w \<and> nan_mean (df ! j) \<noteq> NaN}"
      using i by (auto simp: col_def)
    finally show ?thesis .
  qed
  show ?thesis
    using res len pos by blast
qed

theorem moving_average_min_support_witness:
  "map_of [(''window'', PInt 3)] ''window'' = Some (PInt 3) \<and>
   aggregate_scores [[Fin 1], [NaN], [NaN], [NaN, NaN]] [(''window'', PInt 3)] =
     Inr [Fin 1, Fin 1, Fin 1, NaN] \<and>
   max 1 (3 div 2) \<le>
     int (card {j. j \<le> 2 \<and> int 2 < int j + 3 \<and>
                  nan_mean ([[Fin 1], [NaN], [NaN], [NaN, NaN]] ! j) \<noteq> NaN})"
proof -
  let ?df = "[[Fin 1], [NaN], [NaN], [NaN, NaN]]"
  let ?model = "[(''window'', PInt 3)]"
  let ?support = "\<lambda>i. max 1 (3 div 2) \<le>
     int (card {j. j \<le> i \<and> int i < int j + 3 \<and> nan_mean (?df ! j) \<noteq> NaN})"
  have ev: "aggregate_scores ?df ?model = Inr [Fin 1, Fin 1, Fin 1, NaN]"
    by (simp add: aggregate_scores_def nan_mean_def observations_def fsum_def
        rolling_mean_def window_at_def upt_rec)
  have "\<exists>out. aggregate_scores ?df ?model = Inr out \<and> length out = length ?df \<and>
           (\<forall>i < length ?df. out ! i \<noteq> NaN \<longleftrightarrow> ?support i)"
    by (rule moving_average_min_support) simp_all
  then obtain out where out: "aggregate_scores ?df ?model = Inr out"
    and sup: "\<forall>i < length ?df. out ! i \<noteq> NaN \<longleftrightarrow> ?support i"
    by blast
  from out ev have eq: "out = [Fin 1, Fin 1, Fin 1, NaN]" by simp
  have "(2::nat) < length ?df" by simp
  with sup have "out ! 2 \<noteq> NaN \<longleftrightarrow> ?support 2" by blast
  moreover have "out ! 2 \<noteq> NaN" by (simp add: eq)
  ultimately have "?support 2" by blast
  with ev show ?thesis by simp
qed

text \<open>
  With the window \<open>3\<close> and the scores \<open>1, NaN, NaN\<close> the output at the last position is
  \<open>1\<close>, although only one of the three points of its window is non-missing and
  \<open>\<lceil>3 / 2\<rceil> = 2\<close>.
\<close>

theorem moving_average_ceil_counterexample:
  "aggregate_scores [[Fin 1], [NaN], [NaN]] [(''window'', PInt 3)] = Inr [Fin 1, Fin 1, Fin 1] \<and>
   window_at 3 (map nan_mean [[Fin 1], [NaN], [NaN]]) 2 = [Fin 1, NaN, NaN] \<and>
   int (length (observations [Fin 1, NaN, NaN])) < \<lceil>3 / 2 :: rat\<rceil>"
proof -
  have "\<lceil>3 / 2 :: rat\<rceil> = 2" by (rule ceiling_unique) simp_all
  then show ?thesis
    by (simp add: aggregate_scores_def nan_mean_def observations_def fsum_def
        rolling_mean_def window_at_def upt_rec)
qed

section \<open>Properties of the interval precision\<close>

lemma astype_int_Some: "astype_int (map Some bs) = Inr (map (\<lambda>b. if b then 1 else 0) bs)"
  by (induction bs) simp_all

lemma cumsum_from_run_ids:
  "cumsum_from c (map (\<lambda>b. if b then 1 else 0) (map2 (\<lambda>cur prev. cur \<noteq> prev) ls (prev # ls))) =
     run_ids c prev ls"
  by (induction ls arbitrary: c prev) simp_all

lemma interval_no_Cons:
  "astype_int ((diff_bool (l # ls))[0 := Some False]) =
     Inr (0 # map (\<lambda>b. if b then 1 else 0) (map2 (\<lambda>cur prev. cur \<noteq> prev) ls (l # ls)))"
proof -
  have "(diff_bool (l # ls))[0 := Some False] =
          map Some (False # map2 (\<lambda>cur prev. cur \<noteq> prev) ls (l # ls))"
    by (simp add: diff_bool_def split_beta)
  then show ?thesis
    by (simp only: astype_int_Some) simp
qed

lemma run_ids_same:
  assumes "\<forall>l \<in> set ls. l = prev"
  shows "run_ids c prev (ls @ rest) = replicate (length ls) c @ run_ids c prev rest"
  using assms by (induction ls) simp_all

lemma key_col_Cons: "key_col ((k, b) # kbs) = replicate (length b) k @ key_col kbs"
  by (simp add: key_col_def)

lemma run_ids_runs:
  "df \<noteq> [] \<Longrightarrow>
   c # run_ids c (fst (hd df)) (map fst (tl df)) = key_col (number_runs c (runs df))"
proof (induction df arbitrary: c rule: runs.induct)
  case 1
  then show ?case by simp
next
  case (2 x xs)
  let ?tw = "takeWhile (\<lambda>y. fst y = fst x) xs"
  let ?dw = "dropWhile (\<lambda>y. fst y = fst x) xs"
  have split: "map fst xs = map fst ?tw @ map fst ?dw"
    by (metis map_append takeWhile_dropWhile_id)
  have same: "\<forall>l \<in> set (map fst ?tw). l = fst x"
    by (auto dest: set_takeWhileD)
  have ids: "run_ids c (fst x) (map fst xs) =
               replicate (length ?tw) c @ run_ids c (fst x) (map fst ?dw)"
    unfolding split using run_ids_same[OF same] by simp
  show ?case
  proof (cases ?dw)
    case Nil
    have "runs ?dw = []" "run_ids c (fst x) (map fst ?dw) = []"
      unfolding Nil by simp_all
    then show ?thesis using ids by (simp add: key_col_def)
  next
    case (Cons y ys)
    then have "fst y \<noteq> fst x"
      by (simp add: dropWhile_eq_Cons_conv)
    then have "run_ids c (fst x) (map fst ?dw) = (c + 1) # run_ids (c + 1) (fst y) (map fst ys)"
      using Cons by simp
    also have "\<dots> = key_col (number_runs (c + 1) (runs ?dw))"
      using "2.IH"[of "c + 1"] Cons by simp
    finally show ?thesis using ids by (simp add: key_col_Cons replicate_app_Cons_same)
  qed
qed


lemma group_cells_replicate:
  "group_cells k (replicate (length cells) k') cells = (if k' = k then cells else [])"
  by (induction cells) (auto simp: group_cells_def)

lemma group_cells_append:
  "length ks = length cs \<Longrightarrow>
   group_cells k (ks @ ks') (cs @ cs') = group_cells k ks cs @ group_cells k ks' cs'"
  by (simp add: group_cells_def)

lemma group_cells_blocks:
  "group_cells k (key_col kbs) (map f (concat (map snd kbs))) =
     map f (concat (map snd (filter (\<lambda>kb. fst kb = k) kbs)))"
proof (induction kbs)
  case Nil
  then show ?case by (simp add: key_col_def group_cells_def)
next
  case (Cons kb kbs)
  obtain k' b where kb: "kb = (k', b)" by (cases kb)
  have "group_cells k (key_col (kb # kbs)) (map f (concat (map snd (kb # kbs)))) =
          group_cells k (replicate (length b) k') (map f b) @
          group_cells k (key_col kbs) (map f (concat (map snd kbs)))"
    unfolding kb key_col_Cons by (simp add: group_cells_append)
  also have "group_cells k (replicate (length b) k') (map f b) = (if k' = k then map f b else [])"
    using group_cells_replicate[of k "map f b" k'] by simp
  finally show ?case using Cons.IH by (simp add: kb)
qed

lemma block_of_key:
  "distinct (map fst kbs) \<Longrightarrow> (k, b) \<in> set kbs \<Longrightarrow>
   concat (map snd (filter (\<lambda>kb. fst kb = k) kbs)) = b"
proof (induction kbs)
  case Nil
  then show ?case by simp
next
  case (Cons kb kbs)
  show ?case
  proof (cases "kb = (k, b)")
    case True
    with Cons.prems(1) have "filter (\<lambda>kb. fst kb = k) kbs = []"
      by (auto simp: filter_empty_conv image_iff)
    with True show ?thesis by simp
  next
    case False
    with Cons.prems have in_rest: "(k, b) \<in> set kbs" by simp
    then have "k \<in> fst ` set kbs" by force
    with Cons.prems(1) have "fst kb \<noteq> k" by auto
    with Cons.IH Cons.prems(1) in_rest show ?thesis by simp
  qed
qed

lemma set_key_col:
  "\<forall>kb \<in> set kbs. snd kb \<noteq> [] \<Longrightarrow> set (key_col kbs) = fst ` set kbs"
  by (induction kbs) (auto simp: key_col_def)

lemma group_keys_blocks:
  assumes "sorted (map fst kbs)" "distinct (map fst kbs)" "\<forall>kb \<in> set kbs. snd kb \<noteq> []"
  shows "group_keys (key_col kbs) = map fst kbs"
proof -
  have "set (group_keys (key_col kbs)) = set (map fst kbs)"
    using set_key_col[OF assms(3)] by (simp add: group_keys_def)
  moreover have "sorted (group_keys (key_col kbs))" "distinct (group_keys (key_col kbs))"
    by (simp_all add: group_keys_def)
  ultimately show ?thesis
    using assms(1,2) by (intro sorted_distinct_set_unique) simp_all
qed

lemma col_max_iff: "col_max bs \<longleftrightarrow> True \<in> set bs"
proof -
  have "fold max bs a \<longleftrightarrow> a \<or> True \<in> set bs" for a
    by (induction bs arbitrary: a) (auto simp: max_def)
  then show ?thesis by (simp add: col_max_def)
qed

lemma col_max_list_ex: "col_max (map g xs) = list_ex g xs"
  by (auto simp: col_max_iff list_ex_iff)

lemma col_max_constant:
  assumes "xs \<noteq> []" "\<forall>x \<in> set xs. fst x = fst (hd xs)"
  shows "col_max (map fst xs) = fst (hd xs)"
  using assms by (cases xs) (auto simp: col_max_iff)

lemma map_fst_number_runs:
  "map fst (number_runs c rs) = map (\<lambda>i. c + int i) [0..<length rs]"
proof (induction rs arbitrary: c)
  case Nil
  then show ?case by simp
next
  case (Cons r rs)
  have "[0..<length (r # rs)] = 0 # map Suc [0..<length rs]"
    by (simp add: upt_conv_Cons map_Suc_upt del: upt_Suc)
  then show ?case using Cons.IH[of "c + 1"] by (simp add: comp_def)
qed

lemma map_snd_number_runs: "map snd (number_runs c rs) = rs"
  by (induction rs arbitrary: c) simp_all

lemma number_runs_zip:
  "number_runs 0 rs = map (\<lambda>(i, r). (int i, r)) (zip [0..<length rs] rs)"
proof -
  have "number_runs 0 rs = zip (map fst (number_runs 0 rs)) (map snd (number_runs 0 rs))"
    by (simp add: zip_map_fst_snd)
  also have "\<dots> = zip (map int [0..<length rs]) rs"
    by (simp add: map_fst_number_runs map_snd_number_runs)
  also have "\<dots> = map (\<lambda>(i, r). (int i, r)) (zip [0..<length rs] rs)"
    by (simp add: zip_map1)
  finally show ?thesis .
qed

lemma number_runs_keys_ge: "kb \<in> set (number_runs c rs) \<Longrightarrow> c \<le> fst kb"
  by (induction rs arbitrary: c) force+

lemma sorted_distinct_number_runs:
  "sorted (map fst (number_runs c rs)) \<and> distinct (map fst (number_runs c rs))"
proof (induction rs arbitrary: c)
  case Nil
  then show ?case by simp
next
  case (Cons r rs)
  have "c < fst kb" if "kb \<in> set (number_runs (c + 1) rs)" for kb
    using number_runs_keys_ge[OF that] by simp
  then show ?case using Cons.IH[of "c + 1"] by (auto simp: less_imp_le)
qed

lemma concat_runs: "concat (runs df) = df"
  by (induction df rule: runs.induct) simp_all

lemma runs_nonempty: "r \<in> set (runs df) \<Longrightarrow> r \<noteq> []"
  by (induction df rule: runs.induct) auto

lemma runs_constant: "r \<in> set (runs df) \<Longrightarrow> x \<in> set r \<Longrightarrow> fst x = fst (hd r)"
  by (induction df rule: runs.induct) (auto dest: set_takeWhileD)

lemma runs_change:
  "Suc k < length (runs df) \<Longrightarrow> fst (hd (runs df ! k)) \<noteq> fst (hd (runs df ! Suc k))"
proof (induction df arbitrary: k rule: runs.induct)
  case 1
  then show ?case by simp
next
  case (2 x xs)
  let ?dw = "dropWhile (\<lambda>y. fst y = fst x) xs"
  show ?case
  proof (cases k)
    case 0
    with "2.prems" have "runs ?dw \<noteq> []" by auto
    then obtain y ys where dw: "?dw = y # ys" by (cases ?dw) auto
    then have "fst y \<noteq> fst x" by (simp add: dropWhile_eq_Cons_conv)
    with 0 dw show ?thesis by simp
  next
    case (Suc j)
    with "2.prems" "2.IH"[of j] show ?thesis by simp
  qed
qed


lemma zip_map_map3:
  "zip (map f xs) (zip (map g xs) (map h xs)) = map (\<lambda>x. (f x, g x, h x)) xs"
  by (induction xs) simp_all

lemma find_interval_precision_blocks:
  assumes "df \<noteq> []"
  shows "find_interval_precision df threshold =
           Inr (map (\<lambda>kb. (fst kb, col_max (map fst (snd kb)),
                            col_max (map (\<lambda>row. fge (snd row) threshold) (snd kb))))
                  (number_runs 0 (runs df)))"
proof -
  define kbs where "kbs = number_runs 0 (runs df)"
  from assms obtain x xs where df: "df = x # xs" by (cases df) auto
  have blocks: "concat (map snd kbs) = df"
    by (simp add: kbs_def map_snd_number_runs concat_runs)
  have nonempty: "\<forall>kb \<in> set kbs. snd kb \<noteq> []"
  proof
    fix kb assume "kb \<in> set kbs"
    then have "snd kb \<in> set (map snd kbs)" by simp
    then show "snd kb \<noteq> []"
      unfolding kbs_def map_snd_number_runs by (rule runs_nonempty)
  qed
  have sd: "sorted (map fst kbs)" "distinct (map fst kbs)"
    using sorted_distinct_number_runs[of 0 "runs df"] by (simp_all add: kbs_def)
  have out: "astype_int ((diff_bool (map fst df))[0 := Some False]) =
      Inr (0 # map (\<lambda>b. if b then 1 else 0)
                 (map2 (\<lambda>cur prev. cur \<noteq> prev) (map fst xs) (fst x # map fst xs)))"
    unfolding df using interval_no_Cons[of "fst x" "map fst xs"] by simp
  have no: "cumsum (0 # map (\<lambda>b. if b then 1 else 0)
                 (map2 (\<lambda>cur prev. cur \<noteq> prev) (map fst xs) (fst x # map fst xs))) =
            key_col kbs"
    unfolding cumsum_def kbs_def
    using cumsum_from_run_ids[of 0 "map fst xs" "fst x"] run_ids_runs[of df 0]
    by (simp add: df)
  have keys: "group_keys (key_col kbs) = map fst kbs"
    using sd nonempty by (rule group_keys_blocks)
  have group: "group_cells (fst kb) (key_col kbs) (map f df) = map f (snd kb)"
    if "kb \<in> set kbs" for kb and f :: "bool \<times> fl \<Rightarrow> bool"
  proof -
    have "group_cells (fst kb) (key_col kbs) (map f (concat (map snd kbs))) =
            map f (concat (map snd (filter (\<lambda>kb'. fst kb' = fst kb) kbs)))"
      by (rule group_cells_blocks)
    moreover have "concat (map snd (filter (\<lambda>kb'. fst kb' = fst kb) kbs)) = snd kb"
      using sd(2) that by (intro block_of_key) simp_all
    ultimately show ?thesis by (simp add: blocks)
  qed
  have ne: "diff_bool (map fst df) \<noteq> []"
    by (simp add: df diff_bool_def)
  have "find_interval_precision df threshold =
          Inr (zip (group_keys (key_col kbs))
                 (zip (map (\<lambda>k. col_max (group_cells k (key_col kbs) (map fst df)))
                        (group_keys (key_col kbs)))
                      (map (\<lambda>k. col_max (group_cells k (key_col kbs)
                                   (map (\<lambda>c. fge c threshold) (map snd df))))
                        (group_keys (key_col kbs)))))"
    unfolding find_interval_precision_def Let_def
    by (simp only: ne out no col_ge_def if_False sum.case)
  also have "map (\<lambda>c. fge c threshold) (map snd df) =
             map (\<lambda>row. fge (snd row) threshold) df"
    by simp
  finally have "find_interval_precision df threshold =
          Inr (zip (map fst kbs)
                 (zip (map (\<lambda>k. col_max (group_cells k (key_col kbs) (map fst df))) (map fst kbs))
                      (map (\<lambda>k. col_max (group_cells k (key_col kbs)
                                   (map (\<lambda>row. fge (snd row) threshold) df))) (map fst kbs))))"
    by (simp only: keys)
  also have "map (\<lambda>k. col_max (group_cells k (key_col kbs) (map fst df))) (map fst kbs) =
             map (\<lambda>kb. col_max (map fst (snd kb))) kbs"
    by (simp add: group cong: map_cong)
  also have "map (\<lambda>k. col_max (group_cells k (key_col kbs)
                                   (map (\<lambda>row. fge (snd row) threshold) df))) (map fst kbs) =
             map (\<lambda>kb. col_max (map (\<lambda>row. fge (snd row) threshold) (snd kb))) kbs"
    by (simp add: group cong: map_cong)
  finally show ?thesis
    by (simp only: zip_map_map3 kbs_def)
qed

lemma find_interval_precision_runs:
  assumes "df \<noteq> []"
  shows "find_interval_precision df threshold = Inr (intervals_of_runs df threshold)"
proof -
  have "map (\<lambda>kb. (fst kb, col_max (map fst (snd kb)),
                   col_max (map (\<lambda>row. fge (snd row) threshold) (snd kb))))
          (number_runs 0 (runs df)) =
        map (\<lambda>kb. (fst kb, fst (hd (snd kb)), list_ex (\<lambda>row. fge (snd row) threshold) (snd kb)))
          (number_runs 0 (runs df))"
  proof (rule map_cong[OF refl])
    fix kb assume "kb \<in> set (number_runs 0 (runs df))"
    then have "snd kb \<in> set (map snd (number_runs 0 (runs df)))" by simp
    then have r: "snd kb \<in> set (runs df)" by (simp only: map_snd_number_runs)
    have const: "\<forall>x \<in> set (snd kb). fst x = fst (hd (snd kb))"
      using runs_constant[OF r] by blast
    have "col_max (map fst (snd kb)) = fst (hd (snd kb))"
      using runs_nonempty[OF r] const by (rule col_max_constant)
    then show "(fst kb, col_max (map fst (snd kb)),
                col_max (map (\<lambda>row. fge (snd row) threshold) (snd kb))) =
               (fst kb, fst (hd (snd kb)), list_ex (\<lambda>row. fge (snd row) threshold) (snd kb))"
      by (simp add: col_max_list_ex)
  qed
  also have "\<dots> = intervals_of_runs df threshold"
    by (simp add: intervals_of_runs_def number_runs_zip split_beta)
  finally show ?thesis
    using find_interval_precision_blocks[OF assms] by simp
qed

text \<open>
  C5. Postcondition of the interval precision evaluator: on every non-empty sequence of
  rows \<open>(label, score)\<close> and every threshold, \<open>find_interval_precision\<close> returns exactly
  one row per maximal run of identical labels, numbered \<open>0, 1, 2, \<dots>\<close> from the first run,
  with the label of the run and with the score true if and only if some point of the run
  has a score at or above the threshold. The runs are the maximal ones: they are
  non-empty, constant in the label, concatenate to the input, and two consecutive runs
  differ in their label. In particular the labels \<open>T, T, F, F, T\<close> with the scores
  \<open>0.9, 0.2, 0.1, 0.1, 0.9\<close> and the threshold \<open>0.5\<close> give the three intervals of the
  specification.
\<close>

theorem interval_precision_postcondition:
  "(df \<noteq> [] \<longrightarrow> find_interval_precision df threshold = Inr (intervals_of_runs df threshold)) \<and>
   concat (runs df) = df \<and>
   (\<forall>r \<in> set (runs df). r \<noteq> [] \<and> (\<forall>x \<in> set r. fst x = fst (hd r))) \<and>
   (\<forall>k. Suc k < length (runs df) \<longrightarrow>
        fst (hd (runs df ! k)) \<noteq> fst (hd (runs df ! Suc k))) \<and>
   find_interval_precision
     [(True, Fin (9 / 10)), (True, Fin (2 / 10)), (False, Fin (1 / 10)), (False, Fin (1 / 10)),
      (True, Fin (9 / 10))] (Fin (1 / 2)) =
     Inr [(0, True, True), (1, False, False), (2, True, True)]"
proof (intro conjI)
  show "df \<noteq> [] \<longrightarrow> find_interval_precision df threshold = Inr (intervals_of_runs df threshold)"
    by (simp add: find_interval_precision_runs)
  show "concat (runs df) = df" by (rule concat_runs)
  show "\<forall>r \<in> set (runs df). r \<noteq> [] \<and> (\<forall>x \<in> set r. fst x = fst (hd r))"
    using runs_nonempty runs_constant by blast
  show "\<forall>k. Suc k < length (runs df) \<longrightarrow>
        fst (hd (runs df ! k)) \<noteq> fst (hd (runs df ! Suc k))"
    using runs_change by blast
  have "find_interval_precision
     [(True, Fin (9 / 10)), (True, Fin (2 / 10)), (False, Fin (1 / 10)), (False, Fin (1 / 10)),
      (True, Fin (9 / 10))] (Fin (1 / 2)) =
     Inr (intervals_of_runs [(True, Fin (9 / 10)), (True, Fin (2 / 10)), (False, Fin (1 / 10)),
      (False, Fin (1 / 10)), (True, Fin (9 / 10))] (Fin (1 / 2)))"
    by (rule find_interval_precision_runs) simp
  also have "intervals_of_runs [(True, Fin (9 / 10)), (True, Fin (2 / 10)), (False, Fin (1 / 10)),
      (False, Fin (1 / 10)), (True, Fin (9 / 10))] (Fin (1 / 2)) =
      [(0, True, True), (1, False, False), (2, True, True)]"
    by (simp add: intervals_of_runs_def upt_rec)
  finally show "find_interval_precision
     [(True, Fin (9 / 10)), (True, Fin (2 / 10)), (False, Fin (1 / 10)), (False, Fin (1 / 10)),
      (True, Fin (9 / 10))] (Fin (1 / 2)) =
     Inr [(0, True, True), (1, False, False), (2, True, True)]" .
qed

theorem interval_precision_postcondition_witness:
  "[(True, Fin 1), (False, Fin 0), (False, NaN)] \<noteq> [] \<and>
   find_interval_precision [(True, Fin 1), (False, Fin 0), (False, NaN)] (Fin (1 / 2)) =
     Inr [(0, True, True), (1, False, False)] \<and>
   runs [(True, Fin 1), (False, Fin 0), (False, NaN)] =
     [[(True, Fin 1)], [(False, Fin 0), (False, NaN)]]"
proof -
  have "intervals_of_runs [(True, Fin 1), (False, Fin 0), (False, NaN)] (Fin (1 / 2)) =
          [(0, True, True), (1, False, False)]"
    by (simp add: intervals_of_runs_def upt_rec)
  then show ?thesis
    using interval_precision_postcondition
      [of "[(True, Fin 1), (False, Fin 0), (False, NaN)]" "Fin (1 / 2)"]
    by simp
qed

section \<open>Properties of the depth discretizer: errors and bin count\<close>






text \<open>
  C9. The empty curve, as the code has it: for every side, bin size and start,
  \<open>discretize\<close> fails on the empty curve, and the failure is the IndexError of indexing the
  empty list (\<open>depth[0]\<close> when \<open>start\<close> is \<open>None\<close>, \<open>depth[-1]\<close> otherwise). The function
  validates nothing and raises no error of its own.
\<close>

theorem empty_curve_index_error:
  "discretize side [] bin_size start = Inl IndexError"
  by (simp add: discretize_def)

theorem empty_curve_index_error_witness:
  "discretize ''bid'' [] 0 (Some 3) = Inl IndexError \<and>
   discretize ''ask'' [] 1 None = Inl IndexError"
  using empty_curve_index_error[of "''bid''" 0 "Some 3"] empty_curve_index_error[of "''ask''" 1 None]
  by simp

text \<open>
  On the empty ask curve the error is an IndexError of the interpreter, not an error
  raised by a validation of the input.
\<close>

theorem empty_curve_not_validation_counterexample:
  "discretize ''ask'' [] 1 None = Inl IndexError \<and> \<not> raised_by_validation IndexError"
  by (simp add: discretize_def raised_by_validation_def)






section \<open>Properties of the depth discretizer: area\<close>

subsection \<open>The area accumulated by the loop over the points\<close>








subsection \<open>Ordered curves\<close>






subsection \<open>One bin\<close>







subsection \<open>The loop over the bins\<close>


subsection \<open>The whole curve\<close>






end
